theory Spec2Isabelle
  imports Complex_Main "HOL-Library.Word" "HOL-Library.Sublist"
begin

section \<open>JavaScript values\<close>

text \<open>
  A JavaScript string is a sequence of UTF-16 code units. \<open>utf16\<close> writes an ASCII
  literal; a character outside ASCII is written as its code units.
\<close>

type_synonym jsstring = "16 word list"

definition utf16 :: "string \<Rightarrow> jsstring" where
  "utf16 s = map of_char s"

text \<open>
  A number as \<open>JSON.parse\<close> produces it: a double, which is a finite value (\<open>Finite\<close>
  carries the exact value of a double other than \<open>-0\<close>), \<open>-0\<close>, or an infinity, which
  is what a literal out of range such as \<open>1e400\<close> parses to. \<open>JSON.parse\<close> never gives
  \<open>NaN\<close>.
\<close>

datatype jsnumber = Finite rat | NegZero | PosInfinity | NegInfinity

text \<open>
  A value as \<open>JSON.parse\<close> and \<open>res.json()\<close> produce it. An object is the list of its
  own properties in enumeration order (the order of \<open>Object.values\<close>), with distinct keys.
\<close>

datatype json =
    JNull
  | JBool bool
  | JNum jsnumber
  | JStr jsstring
  | JArr "json list"
  | JObj "(jsstring \<times> json) list"

text \<open>
  What a reader of the text \<open>JSON.stringify\<close> writes for a value gets back: an infinite
  number is written \<open>null\<close> and \<open>-0\<close> is written \<open>0\<close>; a finite double is written
  with digits that read back as the same double; strings, booleans, \<open>null\<close> and the
  structure of arrays and objects are kept.
\<close>

primrec as_sent :: "json \<Rightarrow> json" where
  "as_sent JNull = JNull"
| "as_sent (JBool b) = JBool b"
| "as_sent (JNum n) =
     (case n of
        Finite q \<Rightarrow> JNum (Finite q)
      | NegZero \<Rightarrow> JNum (Finite 0)
      | PosInfinity \<Rightarrow> JNull
      | NegInfinity \<Rightarrow> JNull)"
| "as_sent (JStr s) = JStr s"
| "as_sent (JArr vs) = JArr (map as_sent vs)"
| "as_sent (JObj fs) = JObj (map (map_prod id as_sent) fs)"

text \<open>
  A call that may throw (an awaited promise that may reject), with the message of the
  error thrown.
\<close>

datatype 'a outcome = Throws jsstring | Returns 'a

text \<open>\<open>x || d\<close> on a string that may be \<open>undefined\<close> or \<open>null\<close>: the empty string is falsy too.\<close>

definition js_or :: "jsstring option \<Rightarrow> jsstring \<Rightarrow> jsstring" where
  "js_or x d = (case x of None \<Rightarrow> d | Some s \<Rightarrow> if s = [] then d else s)"

text \<open>\<open>Array.prototype.join\<close> on an array of strings.\<close>

fun js_join :: "jsstring \<Rightarrow> jsstring list \<Rightarrow> jsstring" where
  "js_join sep [] = []"
| "js_join sep [x] = x"
| "js_join sep (x # y # ys) = x @ sep @ js_join sep (y # ys)"

text \<open>
  \<open>String.prototype.trim\<close> removes the code units of ECMAScript's WhiteSpace and
  LineTerminator productions from both ends.
\<close>

definition isWhiteSpace :: "16 word \<Rightarrow> bool" where
  "isWhiteSpace c \<longleftrightarrow>
     c \<in> {0x9, 0xA, 0xB, 0xC, 0xD, 0x20, 0xA0, 0x1680, 0x2028, 0x2029, 0x202F, 0x205F,
          0x3000, 0xFEFF}
     \<or> (0x2000 \<le> c \<and> c \<le> 0x200A)"

definition trim :: "jsstring \<Rightarrow> jsstring" where
  "trim s = rev (dropWhile isWhiteSpace (rev (dropWhile isWhiteSpace s)))"


section \<open>The reply pipeline: app/api/chat/route.ts\<close>

subsection \<open>Module-level constants\<close>

text \<open>
  \<open>process.env\<close> as the module reads it: a variable is a string or undefined.
\<close>

record config =
  env_PINECONE_INDEX_NAME :: "jsstring option"
  env_PINECONE_NAMESPACE :: "jsstring option"

definition PINECONE_INDEX_NAME :: "config \<Rightarrow> jsstring option" where
  "PINECONE_INDEX_NAME cfg = env_PINECONE_INDEX_NAME cfg"

definition PINECONE_NAMESPACE :: "config \<Rightarrow> jsstring" where
  "PINECONE_NAMESPACE cfg = js_or (env_PINECONE_NAMESPACE cfg) (utf16 ''default'')"

text \<open>The prompt texts, character for character as the source file has them.\<close>

definition KOA_SYSTEM_PROMPT :: jsstring where
  "KOA_SYSTEM_PROMPT =
     utf16 ''\<newline>'' @
     utf16 ''You are Koa '' @
     [0xF0, 0x178, 0xA8] @
     utf16 '', a gentle, friendly micro-mindfulness buddy.\<newline>'' @
     utf16 ''Users are usually students or early-career professionals who are stressed, '' @
     utf16 ''tired, or overwhelmed.\<newline>'' @
     utf16 ''\<newline>'' @
     utf16 ''Core rules:\<newline>'' @
     utf16 ''- Tone: warm, cozy, calm, non-judgmental, simple language.\<newline>'' @
     utf16 ''- Give **1'' @
     [0xE2, 0x20AC, 0x201C] @
     utf16 ''2 minute micro-practices** only (breathing, grounding, short body scan, '' @
     utf16 ''tiny reflections).\<newline>'' @
     utf16 ''- Never diagnose, label, or claim to treat mental-health conditions.\<newline>'' @
     utf16 ''- Do NOT talk like a therapist; you are a supportive buddy.\<newline>'' @
     utf16 ''- Always be encouraging and normalize what the user is feeling.\<newline>'' @
     utf16 ''- If the user sounds very distressed, hopeless, or mentions self-harm:\<newline>'' @
     utf16 ''  - Gently say you'' @
     [0xE2, 0x20AC, 0x2122] @
     utf16 ''re an AI buddy and not a crisis service.\<newline>'' @
     utf16 ''  - Encourage them to reach out to a trusted person or local professional/helpline.\<newline>'' @
     utf16 ''\<newline>'' @
     utf16 ''Use the knowledge snippets you receive as your main source for practices.\<newline>'' @
     utf16 ''When you reply:\<newline>'' @
     utf16 ''1. Start with 1'' @
     [0xE2, 0x20AC, 0x201C] @
     utf16 ''2 warm validating sentences.\<newline>'' @
     utf16 ''2. Offer **one** concrete micro-practice that fits their mood/energy/context.\<newline>'' @
     utf16 ''3. Describe steps clearly and briefly (3'' @
     [0xE2, 0x20AC, 0x201C] @
     utf16 ''6 bullet points max).\<newline>'' @
     utf16 ''4. End with a tiny follow-up question like:\<newline>'' @
     utf16 ''   '' @
     [0xE2, 0x20AC, 0x153] @
     utf16 ''Want another option?'' @
     [0xE2, 0x20AC] @
     utf16 '' or '' @
     [0xE2, 0x20AC, 0x153] @
     utf16 ''Want something even shorter?'' @
     [0xE2, 0x20AC] @
     utf16 ''\<newline>''"

definition FORMAT_INSTRUCTIONS :: jsstring where
  "FORMAT_INSTRUCTIONS =
     utf16 ''\<newline>'' @
     utf16 ''Respond ONLY as a JSON object with this exact shape:\<newline>'' @
     utf16 ''\<newline>'' @
     utf16 ''{\<newline>'' @
     utf16 ''  \"reply\": \"short warm message Koa says to the user (max ~120 words)\",\<newline>'' @
     utf16 ''  \"miniPractice\": {\<newline>'' @
     utf16 ''    \"title\": \"name of the practice\",\<newline>'' @
     utf16 ''    \"moodTags\": [\"stressed\", \"anxious\", \"tired\", \"overwhelmed\", '' @
     utf16 ''\"sad\", \"numb\"],\<newline>'' @
     utf16 ''    \"energyLevel\": \"low | medium | high\",\<newline>'' @
     utf16 ''    \"environment\": \"at_desk | commute | bedtime | flexible\",\<newline>'' @
     utf16 ''    \"duration\": \"1'' @
     [0xE2, 0x20AC, 0x201C] @
     utf16 ''2 mins\",\<newline>'' @
     utf16 ''    \"steps\": [\<newline>'' @
     utf16 ''      \"step 1 in simple language\",\<newline>'' @
     utf16 ''      \"step 2 ...\",\<newline>'' @
     utf16 ''      \"step 3 ...\"\<newline>'' @
     utf16 ''    ],\<newline>'' @
     utf16 ''    \"note\": \"optional 1'' @
     [0xE2, 0x20AC, 0x201C] @
     utf16 ''2 line gentle reminder or reframe\"\<newline>'' @
     utf16 ''  }\<newline>'' @
     utf16 ''}\<newline>'' @
     utf16 ''\<newline>'' @
     utf16 ''Do not include any extra text outside this JSON.\<newline>''"

definition SNIPPETS_HEADER :: jsstring where
  "SNIPPETS_HEADER =
     utf16 ''Here are knowledge base snippets you can draw practices from:\<newline>'' @
     utf16 ''\<newline>''"

definition NO_SNIPPET_NOTICE :: jsstring where
  "NO_SNIPPET_NOTICE =
     utf16 ''No specific snippet found; fall back to general micro-mindfulness advice.''"

definition NO_USER_MESSAGE :: jsstring where
  "NO_USER_MESSAGE =
     utf16 ''No user message provided.''"

text \<open>The reply of the object substituted when \<open>JSON.parse\<close> throws ("Could you").\<close>

definition PARSE_APOLOGY :: jsstring where
  "PARSE_APOLOGY =
     utf16 ''Hmm, something went wrong while talking to my brain in the cloud. Could '' @
     utf16 ''you try again in a moment? '' @
     [0xF0, 0x178, 0xAB, 0xA7]"

text \<open>The reply of the object sent from the outer \<open>catch\<close> ("Can you").\<close>

definition UPSTREAM_APOLOGY :: jsstring where
  "UPSTREAM_APOLOGY =
     utf16 ''Hmm, something went wrong while talking to my brain in the cloud. Can you '' @
     utf16 ''try again in a moment? '' @
     [0xF0, 0x178, 0xAB, 0xA7]"

subsection \<open>Data\<close>

text \<open>
  Values have the shapes the handler's type annotations give them: a message has one of
  the three roles and a string as content.
\<close>

datatype Role = System | User | Assistant

record ChatMessage =
  role :: Role
  content :: jsstring

text \<open>
  The request is what \<open>await req.json()\<close> gives: it throws on a body that is not JSON,
  and \<open>body.messages\<close> may be absent.
\<close>

record request_body =
  messages :: "ChatMessage list option"

text \<open>
  The knowledge store. A record's \<open>values\<close> is absent or an object, given as its
  properties in the order \<open>Object.values\<close> enumerates them.
\<close>

record search_request =
  sr_index :: "jsstring option"
  sr_namespace :: jsstring
  sr_topK :: nat
  sr_inputs_text :: jsstring

record store_record =
  rec_values :: "(jsstring \<times> json) list option"

record search_response =
  records :: "store_record list option"

text \<open>The generation service.\<close>

record chat_request =
  cr_model :: jsstring
  cr_response_format_type :: jsstring
  cr_temperature :: rat
  cr_messages :: "ChatMessage list"

record completion_message =
  cm_content :: "jsstring option"

record choice =
  message :: "completion_message option"

record completion =
  choices :: "choice list"

text \<open>
  The collaborators. The store and the generation service are calls to the outside: each
  reads and changes a world \<open>'w\<close> that the handler cannot see otherwise.
  \<open>searchRecords\<close> stands for \<open>pc.index(...).namespace(...).searchRecords(...)\<close> and
  \<open>create\<close> for \<open>openai.chat.completions.create(...)\<close>. \<open>JSON_parse\<close> is the platform's
  \<open>JSON.parse\<close>, \<open>None\<close> where it throws a SyntaxError.
\<close>

record 'w services =
  searchRecords :: "search_request \<Rightarrow> 'w \<Rightarrow> search_response outcome \<times> 'w"
  create :: "chat_request \<Rightarrow> 'w \<Rightarrow> completion outcome \<times> 'w"
  JSON_parse :: "jsstring \<Rightarrow> json option"

text \<open>
  The calls a run of the handler makes, in order, each with what it was given and what
  came back.
\<close>

datatype call =
    SearchRecords search_request "search_response outcome"
  | ChatCompletionsCreate chat_request "completion outcome"

text \<open>
  A response: its status and its body, the body being the value its JSON text reads as.
  \<open>NextResponse.json\<close> writes the text with \<open>JSON.stringify\<close>.
\<close>

record response =
  status :: nat
  body :: json

definition NextResponse_json :: "json \<Rightarrow> nat \<Rightarrow> response" where
  "NextResponse_json b s = \<lparr>status = s, body = as_sent b\<rparr>"

text \<open>What a run of the handler leaves behind: the response, the calls, the world.\<close>

record 'w run =
  sent :: response
  calls :: "call list"
  world :: 'w

subsection \<open>The handler\<close>

definition latestUserMessage :: "ChatMessage list \<Rightarrow> jsstring" where
  "latestUserMessage ms =
     js_or (map_option content (find (\<lambda>m. role m = User) (rev ms))) []"

definition no_user_response :: response where
  "no_user_response =
     NextResponse_json (JObj [(utf16 ''error'', JStr NO_USER_MESSAGE)]) 400"

text \<open>
  \<open>Object.values(rec.values || {}).filter((v) => typeof v === "string")\<close> and its
  \<open>join("\n")\<close>.
\<close>

definition string_fields :: "store_record \<Rightarrow> jsstring list" where
  "string_fields r =
     List.map_filter (\<lambda>v. case v of JStr s \<Rightarrow> Some s | _ \<Rightarrow> None)
       (map snd (case rec_values r of None \<Rightarrow> [] | Some vs \<Rightarrow> vs))"

definition record_text :: "store_record \<Rightarrow> jsstring" where
  "record_text r = js_join (utf16 ''\<newline>'') (string_fields r)"

definition RECORD_SEPARATOR :: jsstring where
  "RECORD_SEPARATOR = utf16 ''\<newline>\<newline>---\<newline>\<newline>''"

definition contextText :: "store_record list \<Rightarrow> jsstring" where
  "contextText rs =
     js_join RECORD_SEPARATOR (filter (\<lambda>t. t \<noteq> []) (map record_text rs))"

definition contextForModel :: "store_record list \<Rightarrow> jsstring" where
  "contextForModel rs = js_or (Some (contextText rs)) NO_SNIPPET_NOTICE"

definition search_request_for :: "config \<Rightarrow> jsstring \<Rightarrow> search_request" where
  "search_request_for cfg q =
     \<lparr>sr_index = PINECONE_INDEX_NAME cfg, sr_namespace = PINECONE_NAMESPACE cfg,
      sr_topK = 5, sr_inputs_text = q\<rparr>"

definition chat_request_for :: "jsstring \<Rightarrow> ChatMessage list \<Rightarrow> chat_request" where
  "chat_request_for ctx ms =
     \<lparr>cr_model = utf16 ''gpt-4.1-mini'',
      cr_response_format_type = utf16 ''json_object'',
      cr_temperature = 6 / 10,
      cr_messages =
        [\<lparr>role = System, content = KOA_SYSTEM_PROMPT\<rparr>,
         \<lparr>role = System, content = SNIPPETS_HEADER @ ctx\<rparr>]
        @ map (\<lambda>m. \<lparr>role = role m, content = content m\<rparr>) ms
        @ [\<lparr>role = System, content = FORMAT_INSTRUCTIONS\<rparr>]\<rparr>"

definition parse_fallback :: json where
  "parse_fallback =
     JObj [(utf16 ''reply'', JStr PARSE_APOLOGY), (utf16 ''miniPractice'', JNull)]"

definition upstream_error_response :: response where
  "upstream_error_response =
     NextResponse_json
       (JObj [(utf16 ''reply'', JStr UPSTREAM_APOLOGY), (utf16 ''miniPractice'', JNull)]) 500"

text \<open>
  \<open>completion.choices[0].message?.content || "{}"\<close>: reading \<open>.message\<close> of a missing
  first choice throws a TypeError.
\<close>

definition completion_content :: "completion \<Rightarrow> jsstring outcome" where
  "completion_content c =
     (case choices c of
        [] \<Rightarrow> Throws (utf16 ''TypeError'')
      | ch # _ \<Rightarrow>
          Returns (js_or (case message ch of None \<Rightarrow> None | Some m \<Rightarrow> cm_content m)
                     (utf16 ''{}'')))"

definition parsed :: "(jsstring \<Rightarrow> json option) \<Rightarrow> jsstring \<Rightarrow> json" where
  "parsed parse txt = (case parse txt of Some v \<Rightarrow> v | None \<Rightarrow> parse_fallback)"

text \<open>\<open>body.messages || []\<close> and \<open>search.records || []\<close>.\<close>

definition request_messages :: "request_body \<Rightarrow> ChatMessage list" where
  "request_messages b = (case messages b of None \<Rightarrow> [] | Some l \<Rightarrow> l)"

definition found_records :: "search_response \<Rightarrow> store_record list" where
  "found_records s = (case records s of None \<Rightarrow> [] | Some l \<Rightarrow> l)"

text \<open>
  \<open>POST\<close>. Every exception inside the \<open>try\<close> ends in the outer \<open>catch\<close>; \<open>JSON.parse\<close>
  has a \<open>catch\<close> of its own, inside \<open>parsed\<close>.
\<close>

definition POST :: "config \<Rightarrow> 'w services \<Rightarrow> request_body outcome \<Rightarrow> 'w \<Rightarrow> 'w run" where
  "POST cfg svc req w =
     (case req of
        Throws e \<Rightarrow> \<lparr>sent = upstream_error_response, calls = [], world = w\<rparr>
      | Returns b \<Rightarrow>
         (let ms = request_messages b;
              q = latestUserMessage ms
          in if q = [] then \<lparr>sent = no_user_response, calls = [], world = w\<rparr>
             else
              (let sreq = search_request_for cfg q;
                   (sres, w1) = searchRecords svc sreq w;
                   c1 = [SearchRecords sreq sres]
               in (case sres of
                    Throws e \<Rightarrow> \<lparr>sent = upstream_error_response, calls = c1, world = w1\<rparr>
                  | Returns search \<Rightarrow>
                     (let creq = chat_request_for (contextForModel (found_records search)) ms;
                          (cres, w2) = create svc creq w1;
                          c2 = c1 @ [ChatCompletionsCreate creq cres]
                      in (case cres of
                           Throws e \<Rightarrow> \<lparr>sent = upstream_error_response, calls = c2, world = w2\<rparr>
                         | Returns c \<Rightarrow>
                            (case completion_content c of
                               Throws e \<Rightarrow>
                                 \<lparr>sent = upstream_error_response, calls = c2, world = w2\<rparr>
                             | Returns txt \<Rightarrow>
                                 \<lparr>sent = NextResponse_json (parsed (JSON_parse svc) txt) 200,
                                  calls = c2, world = w2\<rparr>)))))))"

section \<open>The chat client: app/page.tsx\<close>

text \<open>
  The file holds the page twice. The model follows the version with \<open>sendMessage\<close>; the
  other one has the same statements, in the same order, inside \<open>handleSend\<close>.
\<close>

subsection \<open>Data\<close>

datatype page_Role = page_user | page_assistant

text \<open>
  \<open>content\<close> is declared a string, but an assistant turn takes it from the response body
  unchecked, so it holds whatever JSON value the body carried.
\<close>

record page_ChatMessage =
  pm_id :: int
  pm_role :: page_Role
  pm_content :: json
  withActivityCard :: "bool option"

definition initialAssistantMessage :: page_ChatMessage where
  "initialAssistantMessage =
     \<lparr>pm_id = 1, pm_role = page_assistant,
      pm_content = JStr (
     utf16 ''Hey, I'' @
     [0x27] @
     utf16 ''m Koa '' @
     [0xD83D, 0xDC28] @
     utf16 ''. Tell me how you'' @
     [0x27] @
     utf16 ''re feeling in a line or two, and I'' @
     [0x27] @
     utf16 ''ll suggest a tiny 1'' @
     [0x2013] @
     utf16 ''2 minute practice to help you reset.''),
      withActivityCard = Some True\<rparr>"

definition PLACEHOLDER_TEXT :: jsstring where
  "PLACEHOLDER_TEXT =
     utf16 ''Here'' @
     [0x2019] @
     utf16 ''s a small practice you can try.''"

definition ERROR_TEXT :: jsstring where
  "ERROR_TEXT =
     utf16 ''Hmm, something went wrong while talking to my brain in the cloud. Can you '' @
     utf16 ''try again in a moment? '' @
     [0xD83D, 0xDCAD]"

text \<open>The three \<open>useState\<close> cells of \<open>HomePage\<close>.\<close>

record page_state =
  st_messages :: "page_ChatMessage list"
  st_input :: jsstring
  st_isLoading :: bool

definition initial_state :: page_state where
  "initial_state = \<lparr>st_messages = [initialAssistantMessage], st_input = [], st_isLoading = False\<rparr>"

text \<open>
  What \<open>fetch\<close> is given (the \<open>messages\<close> of the request body) and what comes back: the
  promise rejects, or resolves to a response whose \<open>json()\<close> may reject in turn.
\<close>

type_synonym payload = "(page_Role \<times> json) list"

record fetch_response =
  res_status :: nat
  res_json :: "json outcome"

definition ok :: "fetch_response \<Rightarrow> bool" where
  "ok res \<longleftrightarrow> 200 \<le> res_status res \<and> res_status res \<le> 299"

subsection \<open>sendMessage\<close>

text \<open>
  \<open>data?.k\<close> for the two keys read: \<open>undefined\<close> (\<open>None\<close>) on \<open>null\<close>, and on a
  string, number, boolean or array, none of which has a property of either name.
\<close>

definition optional_member :: "json \<Rightarrow> jsstring \<Rightarrow> json option" where
  "optional_member data k = (case data of JObj fs \<Rightarrow> map_of fs k | _ \<Rightarrow> None)"

text \<open>\<open>a ?? b\<close>: \<open>b\<close> when \<open>a\<close> is \<open>undefined\<close> or \<open>null\<close>.\<close>

definition nullish :: "json option \<Rightarrow> json \<Rightarrow> json" where
  "nullish a b = (case a of None \<Rightarrow> b | Some JNull \<Rightarrow> b | Some v \<Rightarrow> v)"

definition assistantText :: "json \<Rightarrow> json" where
  "assistantText data =
     nullish (optional_member data (utf16 ''message''))
       (nullish (optional_member data (utf16 ''content'')) (JStr PLACEHOLDER_TEXT))"

text \<open>
  The part of \<open>sendMessage\<close> that runs before \<open>await fetch\<close>, at time \<open>now\<close>. The
  function belongs to a render: \<open>isLoading\<close> and \<open>messages\<close> are the values \<open>seen\<close> by
  that render, while the three setters act on the cells \<open>st\<close> as they are now. \<open>None\<close>
  when the guard returns, otherwise the cells after the setters and the payload.
\<close>

definition sendMessage_start ::
  "jsstring \<Rightarrow> int \<Rightarrow> page_state \<Rightarrow> page_state \<Rightarrow> (page_state \<times> payload) option" where
  "sendMessage_start text now seen st =
     (let trimmed = trim text
      in if trimmed = [] \<or> st_isLoading seen then None
         else
           let userMsg = \<lparr>pm_id = now, pm_role = page_user, pm_content = JStr trimmed,
                          withActivityCard = None\<rparr>;
               history = st_messages seen @ [userMsg]
           in Some (st\<lparr>st_messages := st_messages st @ [userMsg], st_input := [],
                       st_isLoading := True\<rparr>,
                    map (\<lambda>m. (pm_role m, pm_content m)) history))"

text \<open>
  The rest, run when the promise settles, at time \<open>now\<close>: the \<open>try\<close> body after the
  \<open>await\<close>, the \<open>catch\<close> and the \<open>finally\<close>.
\<close>

definition sendMessage_settle :: "fetch_response outcome \<Rightarrow> int \<Rightarrow> page_state \<Rightarrow> page_state" where
  "sendMessage_settle r now st =
     (let errorMsg = \<lparr>pm_id = now + 2, pm_role = page_assistant, pm_content = JStr ERROR_TEXT,
                       withActivityCard = None\<rparr>;
          caught = st\<lparr>st_messages := st_messages st @ [errorMsg]\<rparr>;
          st' = (case r of
                   Throws e \<Rightarrow> caught
                 | Returns res \<Rightarrow>
                     if \<not> ok res then caught
                     else (case res_json res of
                             Throws e \<Rightarrow> caught
                           | Returns data \<Rightarrow>
                               let assistantMsg =
                                     \<lparr>pm_id = now + 1, pm_role = page_assistant,
                                      pm_content = assistantText data,
                                      withActivityCard = Some True\<rparr>
                               in st\<lparr>st_messages := st_messages st @ [assistantMsg]\<rparr>))
      in st'\<lparr>st_isLoading := False\<rparr>)"

text \<open>
  One whole call with nothing in between, \<open>fetch\<close> being a function of the payload.
\<close>

definition sendMessage ::
  "(payload \<Rightarrow> fetch_response outcome) \<Rightarrow> jsstring \<Rightarrow> int \<Rightarrow> int \<Rightarrow>
     page_state \<Rightarrow> page_state \<Rightarrow> page_state" where
  "sendMessage fetch text t0 t1 seen st =
     (case sendMessage_start text t0 seen st of
        None \<Rightarrow> st
      | Some (st1, p) \<Rightarrow> sendMessage_settle (fetch p) t1 st1)"

subsection \<open>The page as a state machine\<close>

text \<open>
  The page: the cells as they are now, the values the handlers of the last render closed
  over, and the number of requests started and not yet settled.
\<close>

record page =
  cells :: page_state
  rendered :: page_state
  in_flight :: nat

definition initial_page :: page where
  "initial_page = \<lparr>cells = initial_state, rendered = initial_state, in_flight = 0\<rparr>"

text \<open>
  Everything that happens to the page: the form's submit, a quick-mood chip, typing, a
  render, and a pending request settling. \<open>handleSend\<close> passes the \<open>input\<close> its render
  saw. A render may come between any two of the others or fail to come in time: two
  submits with no render between them both read \<open>isLoading\<close> as it was.
\<close>

datatype page_event =
    HandleSend int
  | HandleQuickMood jsstring int
  | InputChange jsstring
  | Render
  | FetchSettled "fetch_response outcome" int

fun page_step :: "page \<Rightarrow> page_event \<Rightarrow> page" where
  "page_step p (HandleSend now) =
     (case sendMessage_start (st_input (rendered p)) now (rendered p) (cells p) of
        None \<Rightarrow> p
      | Some (st1, _) \<Rightarrow> p\<lparr>cells := st1, in_flight := Suc (in_flight p)\<rparr>)"
| "page_step p (HandleQuickMood text now) =
     (case sendMessage_start text now (rendered p) (cells p) of
        None \<Rightarrow> p
      | Some (st1, _) \<Rightarrow> p\<lparr>cells := st1, in_flight := Suc (in_flight p)\<rparr>)"
| "page_step p (InputChange s) = p\<lparr>cells := (cells p)\<lparr>st_input := s\<rparr>\<rparr>"
| "page_step p Render = p\<lparr>rendered := cells p\<rparr>"
| "page_step p (FetchSettled r now) =
     (if in_flight p = 0 then p
      else p\<lparr>cells := sendMessage_settle r now (cells p), in_flight := in_flight p - 1\<rparr>)"

text \<open>
  The data of a settled request when it succeeded: the promise resolved, \<open>res.ok\<close> holds
  and the body parses.
\<close>

definition response_data :: "fetch_response outcome \<Rightarrow> json option" where
  "response_data r =
     (case r of
        Returns res \<Rightarrow> (if ok res then (case res_json res of Returns d \<Rightarrow> Some d | Throws e \<Rightarrow> None) else None)
      | Throws e \<Rightarrow> None)"

section \<open>Notions used to state the properties\<close>

definition is_user :: "ChatMessage \<Rightarrow> bool" where
  "is_user m \<longleftrightarrow> role m = User"

definition has_user_message :: "ChatMessage list \<Rightarrow> bool" where
  "has_user_message ms = list_ex is_user ms"

text \<open>The content of the last user-role message of a history, if it has one.\<close>

definition last_user_content :: "ChatMessage list \<Rightarrow> jsstring option" where
  "last_user_content ms =
     (case filter is_user ms of [] \<Rightarrow> None | u # us \<Rightarrow> Some (content (last (u # us))))"

text \<open>
  The context block as the specification words it: the text of every record, in record
  order, joined by the separator, and the notice when there is no record.
\<close>

definition context_as_specified :: "store_record list \<Rightarrow> jsstring" where
  "context_as_specified rs =
     (if rs = [] then NO_SNIPPET_NOTICE else js_join RECORD_SEPARATOR (map record_text rs))"

text \<open>A value that holds no \<open>-0\<close> and no infinite number.\<close>

fun plain :: "json \<Rightarrow> bool" where
  "plain (JNum n) = (case n of Finite q \<Rightarrow> True | _ \<Rightarrow> False)"
| "plain (JArr vs) = list_all plain vs"
| "plain (JObj fs) = list_all (\<lambda>kv. plain (snd kv)) fs"
| "plain v = True"

subsection \<open>Stand-ins for the collaborators, and example data\<close>

text \<open>
  A stand-in for \<open>JSON.parse\<close> that agrees with it on the texts the examples use: the
  three texts of its table parse to the values given (the literal \<open>1e400\<close> is beyond
  the largest double and reads as \<open>Infinity\<close>), and the empty text and the plain
  sentence \<open>Sure!\<close> are rejected.
\<close>

definition stub_parse :: "jsstring \<Rightarrow> json option" where
  "stub_parse =
     map_of
       [(utf16 ''{}'', JObj []),
        (utf16 ''{\"reply\":\"ok\",\"miniPractice\":null}'',
         JObj [(utf16 ''reply'', JStr (utf16 ''ok'')), (utf16 ''miniPractice'', JNull)]),
        (utf16 ''{\"n\":1e400}'', JObj [(utf16 ''n'', JNum PosInfinity)])]"

text \<open>
  A store and a generation service that answer every call alike; the world counts the
  calls made.
\<close>

definition stub_services :: "search_response outcome \<Rightarrow> completion outcome \<Rightarrow> nat services" where
  "stub_services sres cres =
     \<lparr>searchRecords = (\<lambda>_ w. (sres, Suc w)), create = (\<lambda>_ w. (cres, Suc w)),
      JSON_parse = stub_parse\<rparr>"

definition stub_config :: config where
  "stub_config =
     \<lparr>env_PINECONE_INDEX_NAME = Some (utf16 ''koa''), env_PINECONE_NAMESPACE = None\<rparr>"

definition unavailable :: "'a outcome" where
  "unavailable = Throws (utf16 ''service unavailable'')"

definition hi_request :: "request_body outcome" where
  "hi_request = Returns \<lparr>messages = Some [\<lparr>role = User, content = utf16 ''hi''\<rparr>]\<rparr>"

definition history4 :: "ChatMessage list" where
  "history4 =
     [\<lparr>role = User, content = utf16 ''first''\<rparr>,
      \<lparr>role = Assistant, content = utf16 ''reply''\<rparr>,
      \<lparr>role = User, content = utf16 ''second''\<rparr>,
      \<lparr>role = System, content = utf16 ''note''\<rparr>]"

definition record_a :: store_record where
  "record_a =
     \<lparr>rec_values = Some [(utf16 ''text'', JStr (utf16 ''Box breathing'')),
                         (utf16 ''score'', JNum (Finite 1)),
                         (utf16 ''post_context'', JStr (utf16 ''Repeat 3 times''))]\<rparr>"

definition record_b :: store_record where
  "record_b = \<lparr>rec_values = Some [(utf16 ''text'', JStr (utf16 ''Body scan''))]\<rparr>"

definition record_without_text :: store_record where
  "record_without_text = \<lparr>rec_values = Some [(utf16 ''score'', JNum (Finite 1))]\<rparr>"

definition completion_with :: "jsstring option \<Rightarrow> completion" where
  "completion_with t = \<lparr>choices = [\<lparr>message = Some \<lparr>cm_content = t\<rparr>\<rparr>]\<rparr>"

definition huge_completion :: completion where
  "huge_completion = completion_with (Some (utf16 ''{\"n\":1e400}''))"

definition ok_completion :: completion where
  "ok_completion = completion_with (Some (utf16 ''{\"reply\":\"ok\",\"miniPractice\":null}''))"

definition tired_run :: "page_event list" where
  "tired_run =
     [InputChange (utf16 ''  tired ''), Render, HandleSend 1000, Render,
      InputChange (utf16 ''zz''), HandleSend 1500, FetchSettled unavailable 2000]"

section \<open>Properties of the reply pipeline\<close>

subsection \<open>Auxiliary facts\<close>

lemma find_rev:
  "find P (rev xs) = (case filter P xs of [] \<Rightarrow> None | u # us \<Rightarrow> Some (last (u # us)))"
  by (induction xs rule: rev_induct) (auto split: list.splits)

lemma latestUserMessage_eq:
  "latestUserMessage ms = (case last_user_content ms of None \<Rightarrow> [] | Some s \<Rightarrow> s)"
  by (simp add: latestUserMessage_def last_user_content_def find_rev js_or_def
      is_user_def [abs_def] split: list.splits)

lemma has_user_message_iff: "has_user_message ms \<longleftrightarrow> last_user_content ms \<noteq> None"
proof -
  have "filter is_user ms = [] \<longleftrightarrow> \<not> list_ex is_user ms"
    by (simp add: filter_empty_conv list_ex_iff)
  then show ?thesis
    by (cases "filter is_user ms") (simp_all add: has_user_message_def last_user_content_def)
qed

lemma POST_status_400:
  "status (sent (POST cfg svc (Returns b) w)) = 400
     \<longleftrightarrow> latestUserMessage (request_messages b) = []"
  by (simp add: POST_def Let_def no_user_response_def upstream_error_response_def
      NextResponse_json_def split: outcome.splits prod.splits)

lemma POST_generation_called:
  "ChatCompletionsCreate creq cres \<in> set (calls (POST cfg svc req w)) \<Longrightarrow>
   \<exists>sreq search b. req = Returns b
    \<and> calls (POST cfg svc req w)
        = [SearchRecords sreq (Returns search), ChatCompletionsCreate creq cres]
    \<and> creq = chat_request_for (contextForModel (found_records search)) (request_messages b)"
  by (auto simp: POST_def Let_def split: outcome.splits prod.splits if_splits)

lemma POST_generation_returns:
  assumes "ChatCompletionsCreate creq (Returns c) \<in> set (calls (POST cfg svc req w))"
  shows "sent (POST cfg svc req w) =
    (case completion_content c of
       Throws e \<Rightarrow> upstream_error_response
     | Returns txt \<Rightarrow> NextResponse_json (parsed (JSON_parse svc) txt) 200)"
  using assms
  by (auto simp: POST_def Let_def split: outcome.splits prod.splits if_splits)

lemma POST_upstream_throws:
  assumes "SearchRecords sreq (Throws e) \<in> set (calls (POST cfg svc req w))
         \<or> ChatCompletionsCreate creq (Throws e) \<in> set (calls (POST cfg svc req w))"
  shows "sent (POST cfg svc req w) = upstream_error_response"
  using assms
  by (auto simp: POST_def Let_def split: outcome.splits prod.splits if_splits)

lemma js_join_empty_iff:
  "\<forall>t \<in> set ts. t \<noteq> [] \<Longrightarrow> js_join sep ts = [] \<longleftrightarrow> ts = []"
  by (induction sep ts rule: js_join.induct) simp_all

lemma contextForModel_cases:
  "contextForModel rs =
     (if \<forall>r \<in> set rs. record_text r = [] then NO_SNIPPET_NOTICE
      else js_join RECORD_SEPARATOR (filter (\<lambda>t. t \<noteq> []) (map record_text rs)))"
proof -
  let ?ts = "filter (\<lambda>t. t \<noteq> []) (map record_text rs)"
  have e: "js_join RECORD_SEPARATOR ?ts = [] \<longleftrightarrow> ?ts = []"
    by (rule js_join_empty_iff) simp
  have "?ts = [] \<longleftrightarrow> (\<forall>r \<in> set rs. record_text r = [])"
    by (simp add: filter_empty_conv)
  with e show ?thesis
    by (simp add: contextForModel_def contextText_def js_or_def)
qed

lemma NO_SNIPPET_NOTICE_nonempty: "NO_SNIPPET_NOTICE \<noteq> []"
  by (simp add: NO_SNIPPET_NOTICE_def utf16_def)

lemma record_texts:
  "record_text record_a = utf16 ''Box breathing\<newline>Repeat 3 times''"
  "record_text record_b = utf16 ''Body scan''"
  "record_text record_without_text = []"
  by (simp_all add: record_text_def string_fields_def List.map_filter_def record_a_def
      record_b_def record_without_text_def utf16_def)

text \<open>The run of the handler on the request \<open>hi\<close> against the stand-ins, step by step.\<close>

lemma hi_query: "latestUserMessage [\<lparr>role = User, content = utf16 ''hi''\<rparr>] = utf16 ''hi''"
  by (simp add: latestUserMessage_def js_or_def utf16_def)

lemma hi_calls:
  "calls (POST stub_config (stub_services (Returns search) cres) hi_request w)
     = [SearchRecords (search_request_for stub_config (utf16 ''hi'')) (Returns search),
        ChatCompletionsCreate
          (chat_request_for (contextForModel (found_records search))
             [\<lparr>role = User, content = utf16 ''hi''\<rparr>]) cres]"
proof -
  have "utf16 ''hi'' \<noteq> []" by (simp add: utf16_def)
  then show ?thesis
    by (simp add: POST_def hi_request_def request_messages_def hi_query stub_services_def
        Let_def split: outcome.splits)
qed

lemma hi_search_throws:
  "calls (POST stub_config (stub_services (Throws e) cres) hi_request w)
     = [SearchRecords (search_request_for stub_config (utf16 ''hi'')) (Throws e)]"
proof -
  have "utf16 ''hi'' \<noteq> []" by (simp add: utf16_def)
  then show ?thesis
    by (simp add: POST_def hi_request_def request_messages_def hi_query stub_services_def
        Let_def)
qed

lemma hi_ok_response:
  "sent (POST stub_config
      (stub_services (Returns \<lparr>records = None\<rparr>) (Returns ok_completion)) hi_request w)
     = \<lparr>status = 200,
        body = JObj [(utf16 ''reply'', JStr (utf16 ''ok'')), (utf16 ''miniPractice'', JNull)]\<rparr>"
proof -
  let ?svc = "stub_services (Returns \<lparr>records = None\<rparr>) (Returns ok_completion)"
  have "ChatCompletionsCreate
          (chat_request_for (contextForModel (found_records \<lparr>records = None\<rparr>))
             [\<lparr>role = User, content = utf16 ''hi''\<rparr>])
          (Returns ok_completion)
      \<in> set (calls (POST stub_config ?svc hi_request w))"
    by (simp add: hi_calls)
  from POST_generation_returns [OF this] show ?thesis
    by (simp add: completion_content_def completion_with_def ok_completion_def js_or_def
        parsed_def stub_services_def stub_parse_def NextResponse_json_def utf16_def)
qed

lemma string_fields_comprehension:
  "string_fields \<lparr>rec_values = Some vs\<rparr> = [s. (k, JStr s) \<leftarrow> vs]"
proof (induction vs)
  case Nil
  show ?case by (simp add: string_fields_def List.map_filter_def)
next
  case (Cons kv vs)
  obtain k v where "kv = (k, v)" by (cases kv)
  with Cons show ?case
    by (cases v) (simp_all add: string_fields_def List.map_filter_def)
qed

subsection \<open>The client-error check\<close>

text \<open>
  Claim C2 fails as stated: a history whose only user-role message has empty content
  contains a user-role message and still gets status 400.
\<close>

theorem empty_user_message_gets_400:
  "has_user_message [\<lparr>role = User, content = []\<rparr>]
   \<and> status (sent (POST stub_config (stub_services unavailable unavailable)
        (Returns \<lparr>messages = Some [\<lparr>role = User, content = []\<rparr>]\<rparr>) 0)) = 400"
  by (simp add: has_user_message_def is_user_def POST_def request_messages_def
      latestUserMessage_def js_or_def no_user_response_def NextResponse_json_def)

text \<open>
  Claim C2, amended. For a request whose body parses, the response has status 400 if and
  only if the history has no user-role message or its last user-role message has empty
  content. In that case the response is the \<open>error\<close> object, no collaborator is called
  (so never the generation service) and the world is untouched. Otherwise the handler
  goes past the check: its first call is the search for the content of the last
  user-role message.
\<close>

theorem status_400_iff_no_nonempty_last_user_message:
  "(status (sent (POST cfg svc (Returns b) w)) = 400 \<longleftrightarrow>
      (\<not> has_user_message (request_messages b)
       \<or> last_user_content (request_messages b) = Some []))
   \<and> (status (sent (POST cfg svc (Returns b) w)) = 400 \<longrightarrow>
        POST cfg svc (Returns b) w
          = \<lparr>sent = \<lparr>status = 400, body = JObj [(utf16 ''error'', JStr NO_USER_MESSAGE)]\<rparr>,
             calls = [], world = w\<rparr>)
   \<and> (status (sent (POST cfg svc (Returns b) w)) \<noteq> 400 \<longrightarrow>
        (\<exists>q r rest. last_user_content (request_messages b) = Some q \<and>
           calls (POST cfg svc (Returns b) w)
             = SearchRecords (search_request_for cfg q) r # rest))"
proof (intro conjI impI)
  show "status (sent (POST cfg svc (Returns b) w)) = 400 \<longleftrightarrow>
      (\<not> has_user_message (request_messages b)
       \<or> last_user_content (request_messages b) = Some [])"
    by (auto simp: POST_status_400 latestUserMessage_eq has_user_message_iff
        split: option.splits)
next
  assume "status (sent (POST cfg svc (Returns b) w)) = 400"
  then have "latestUserMessage (request_messages b) = []"
    by (simp add: POST_status_400)
  then show "POST cfg svc (Returns b) w
      = \<lparr>sent = \<lparr>status = 400, body = JObj [(utf16 ''error'', JStr NO_USER_MESSAGE)]\<rparr>,
         calls = [], world = w\<rparr>"
    by (simp add: POST_def no_user_response_def NextResponse_json_def)
next
  assume "status (sent (POST cfg svc (Returns b) w)) \<noteq> 400"
  then have q: "latestUserMessage (request_messages b) \<noteq> []"
    by (simp add: POST_status_400)
  then obtain q where "last_user_content (request_messages b) = Some q"
    and "latestUserMessage (request_messages b) = q"
    by (auto simp: latestUserMessage_eq split: option.splits)
  with q show "\<exists>q r rest. last_user_content (request_messages b) = Some q \<and>
      calls (POST cfg svc (Returns b) w) = SearchRecords (search_request_for cfg q) r # rest"
    by (auto simp: POST_def Let_def split: outcome.splits prod.splits)
qed

theorem status_400_iff_no_nonempty_last_user_message_witness:
  "POST stub_config (stub_services unavailable unavailable) (Returns \<lparr>messages = None\<rparr>) 0
     = \<lparr>sent = \<lparr>status = 400, body = JObj [(utf16 ''error'', JStr NO_USER_MESSAGE)]\<rparr>,
        calls = [], world = 0\<rparr>
   \<and> status (sent (POST stub_config (stub_services unavailable unavailable) hi_request 0))
       \<noteq> 400
   \<and> (\<exists>r rest. calls (POST stub_config (stub_services unavailable unavailable) hi_request 0)
        = SearchRecords (search_request_for stub_config (utf16 ''hi'')) r # rest)"
  using status_400_iff_no_nonempty_last_user_message
          [of stub_config "stub_services unavailable unavailable" "\<lparr>messages = None\<rparr>" 0]
    status_400_iff_no_nonempty_last_user_message
          [of stub_config "stub_services unavailable unavailable"
              "\<lparr>messages = Some [\<lparr>role = User, content = utf16 ''hi''\<rparr>]\<rparr>" 0]
  by (simp add: has_user_message_def is_user_def request_messages_def last_user_content_def
      hi_request_def utf16_def)

subsection \<open>The query\<close>

text \<open>
  Claim C3. For a history with at least one user-role message, the text the handler
  selects is the content of the last user-role message in sequence order; every search
  call of the run has that text as its query; and when that text is not empty the run
  starts with this search. (When it is empty there is no search: the 400 check above.)
\<close>

theorem search_query_is_last_user_message:
  assumes "has_user_message (request_messages b)"
  shows "latestUserMessage (request_messages b)
           = content (last (filter is_user (request_messages b)))
    \<and> (\<forall>c \<in> set (calls (POST cfg svc (Returns b) w)). \<forall>sreq r.
          c = SearchRecords sreq r \<longrightarrow>
          sr_inputs_text sreq = content (last (filter is_user (request_messages b))))
    \<and> (content (last (filter is_user (request_messages b))) \<noteq> [] \<longrightarrow>
         (\<exists>r rest. calls (POST cfg svc (Returns b) w)
            = SearchRecords
                (search_request_for cfg
                   (content (last (filter is_user (request_messages b))))) r
              # rest))"
proof -
  let ?ms = "request_messages b"
  let ?q = "content (last (filter is_user ?ms))"
  from assms obtain u us where "filter is_user ?ms = u # us"
    by (cases "filter is_user ?ms") (simp_all add: has_user_message_iff last_user_content_def)
  then have "last_user_content ?ms = Some ?q"
    by (simp add: last_user_content_def)
  then have q: "latestUserMessage ?ms = ?q"
    by (simp add: latestUserMessage_eq)
  have c: "\<forall>c \<in> set (calls (POST cfg svc (Returns b) w)). \<forall>sreq r.
          c = SearchRecords sreq r \<longrightarrow> sr_inputs_text sreq = ?q"
    using q
    by (auto simp: POST_def Let_def search_request_for_def
        split: outcome.splits prod.splits if_splits)
  have d: "?q \<noteq> [] \<longrightarrow> (\<exists>r rest. calls (POST cfg svc (Returns b) w)
            = SearchRecords (search_request_for cfg ?q) r # rest)"
    using q by (auto simp: POST_def Let_def split: outcome.splits prod.splits)
  from q c d show ?thesis by blast
qed

theorem search_query_is_last_user_message_witness:
  "has_user_message history4 \<and> latestUserMessage history4 = utf16 ''second''
   \<and> (\<exists>r rest. calls (POST stub_config (stub_services unavailable unavailable)
          (Returns \<lparr>messages = Some history4\<rparr>) 0)
        = SearchRecords (search_request_for stub_config (utf16 ''second'')) r # rest)"
  using search_query_is_last_user_message
          [of "\<lparr>messages = Some history4\<rparr>" stub_config
              "stub_services unavailable unavailable" 0]
  by (simp add: has_user_message_def is_user_def request_messages_def history4_def utf16_def)

subsection \<open>The context block\<close>

text \<open>
  Claim C4 fails as stated: the store returns one record, the record has no string field,
  so the text put together from the string fields is empty; the context block is the
  notice all the same.
\<close>

theorem record_without_text_gets_notice:
  "string_fields record_without_text = []
   \<and> context_as_specified [record_without_text] = []
   \<and> contextForModel [record_without_text] = NO_SNIPPET_NOTICE
   \<and> contextForModel [record_without_text] \<noteq> context_as_specified [record_without_text]"
  using NO_SNIPPET_NOTICE_nonempty
  by (simp add: record_without_text_def string_fields_def List.map_filter_def
      context_as_specified_def contextForModel_def contextText_def record_text_def js_or_def)

text \<open>
  Claim C4, amended. The text of a record is its string-valued fields, in the order of
  the record, joined by a line break. The context block is the notice when the store
  returns zero records, and also when no record has any text; otherwise it is the
  non-empty record texts, in record order, joined by the separator (a blank line, three
  dashes, a blank line), which is the join over all records when each of them has text.
  The generation service is given the block of the records the search returned, after
  the header, in its second message.
\<close>

theorem context_block_of_records:
  "(\<forall>vs. string_fields \<lparr>rec_values = Some vs\<rparr> = [s. (k, JStr s) \<leftarrow> vs])
   \<and> string_fields \<lparr>rec_values = None\<rparr> = []
   \<and> (\<forall>r. record_text r = js_join (utf16 ''\<newline>'') (string_fields r))
   \<and> contextForModel [] = NO_SNIPPET_NOTICE
   \<and> ((\<forall>r \<in> set rs. record_text r = []) \<longrightarrow> contextForModel rs = NO_SNIPPET_NOTICE)
   \<and> ((\<exists>r \<in> set rs. record_text r \<noteq> []) \<longrightarrow>
        contextForModel rs
          = js_join RECORD_SEPARATOR (filter (\<lambda>t. t \<noteq> []) (map record_text rs)))
   \<and> ((\<forall>r \<in> set rs. record_text r \<noteq> []) \<and> rs \<noteq> [] \<longrightarrow>
        contextForModel rs = js_join RECORD_SEPARATOR (map record_text rs))
   \<and> (\<forall>creq cres. ChatCompletionsCreate creq cres \<in> set (calls (POST cfg svc req w)) \<longrightarrow>
        (\<exists>sreq search. SearchRecords sreq (Returns search) \<in> set (calls (POST cfg svc req w))
           \<and> cr_messages creq ! 1
               = \<lparr>role = System,
                  content = SNIPPETS_HEADER @ contextForModel (found_records search)\<rparr>))"
proof -
  have f1: "\<forall>vs. string_fields \<lparr>rec_values = Some vs\<rparr> = [s. (k, JStr s) \<leftarrow> vs]"
    by (simp add: string_fields_comprehension)
  have f2: "string_fields \<lparr>rec_values = None\<rparr> = []"
    by (simp add: string_fields_def List.map_filter_def)
  have f3: "\<forall>r. record_text r = js_join (utf16 ''\<newline>'') (string_fields r)"
    by (simp add: record_text_def)
  have c0: "contextForModel [] = NO_SNIPPET_NOTICE"
    by (simp add: contextForModel_cases)
  have c1: "(\<forall>r \<in> set rs. record_text r = []) \<longrightarrow> contextForModel rs = NO_SNIPPET_NOTICE"
    by (simp add: contextForModel_cases)
  have c2: "(\<exists>r \<in> set rs. record_text r \<noteq> []) \<longrightarrow>
        contextForModel rs
          = js_join RECORD_SEPARATOR (filter (\<lambda>t. t \<noteq> []) (map record_text rs))"
    by (auto simp: contextForModel_cases)
  have c3: "(\<forall>r \<in> set rs. record_text r \<noteq> []) \<and> rs \<noteq> [] \<longrightarrow>
        contextForModel rs = js_join RECORD_SEPARATOR (map record_text rs)"
  proof
    assume a: "(\<forall>r \<in> set rs. record_text r \<noteq> []) \<and> rs \<noteq> []"
    then have "filter (\<lambda>t. t \<noteq> []) (map record_text rs) = map record_text rs"
      by (simp add: filter_id_conv)
    moreover from a have "\<not> (\<forall>r \<in> set rs. record_text r = [])"
      by (cases rs) auto
    then have "contextForModel rs
        = js_join RECORD_SEPARATOR (filter (\<lambda>t. t \<noteq> []) (map record_text rs))"
      by (simp only: contextForModel_cases if_False)
    ultimately show "contextForModel rs = js_join RECORD_SEPARATOR (map record_text rs)"
      by simp
  qed
  have g: "\<forall>creq cres. ChatCompletionsCreate creq cres \<in> set (calls (POST cfg svc req w)) \<longrightarrow>
        (\<exists>sreq search. SearchRecords sreq (Returns search) \<in> set (calls (POST cfg svc req w))
           \<and> cr_messages creq ! 1
               = \<lparr>role = System,
                  content = SNIPPETS_HEADER @ contextForModel (found_records search)\<rparr>)"
  proof (intro allI impI)
    fix creq cres
    assume "ChatCompletionsCreate creq cres \<in> set (calls (POST cfg svc req w))"
    from POST_generation_called [OF this] obtain sreq search b where
      c: "calls (POST cfg svc req w)
            = [SearchRecords sreq (Returns search), ChatCompletionsCreate creq cres]"
      and r: "creq
            = chat_request_for (contextForModel (found_records search)) (request_messages b)"
      by blast
    from r have "cr_messages creq ! 1
        = \<lparr>role = System, content = SNIPPETS_HEADER @ contextForModel (found_records search)\<rparr>"
      by (simp add: chat_request_for_def)
    with c show "\<exists>sreq search.
        SearchRecords sreq (Returns search) \<in> set (calls (POST cfg svc req w))
        \<and> cr_messages creq ! 1
            = \<lparr>role = System,
               content = SNIPPETS_HEADER @ contextForModel (found_records search)\<rparr>"
      by auto
  qed
  show ?thesis
    by (intro conjI) (rule f1 f2 f3 c0 c1 c2 c3 g)+
qed

theorem context_block_of_records_witness:
  "string_fields record_a = [utf16 ''Box breathing'', utf16 ''Repeat 3 times'']
   \<and> contextForModel [record_without_text] = NO_SNIPPET_NOTICE
   \<and> contextForModel [record_a, record_without_text, record_b]
       = utf16 ''Box breathing\<newline>Repeat 3 times\<newline>\<newline>---\<newline>\<newline>Body scan''
   \<and> contextForModel [record_a, record_b]
       = utf16 ''Box breathing\<newline>Repeat 3 times\<newline>\<newline>---\<newline>\<newline>Body scan''
   \<and> (\<exists>creq cres.
         ChatCompletionsCreate creq cres
           \<in> set (calls (POST stub_config
                 (stub_services (Returns \<lparr>records = Some [record_a, record_b]\<rparr>) unavailable)
                 hi_request 0))
       \<and> cr_messages creq ! 1
           = \<lparr>role = System,
              content = SNIPPETS_HEADER @
                utf16 ''Box breathing\<newline>Repeat 3 times\<newline>\<newline>---\<newline>\<newline>Body scan''\<rparr>)"
proof -
  let ?found = "\<lparr>records = Some [record_a, record_b]\<rparr>"
  let ?svc = "stub_services (Returns ?found) unavailable"
  let ?creq = "chat_request_for (contextForModel (found_records ?found))
                 [\<lparr>role = User, content = utf16 ''hi''\<rparr>]"
  note cs = hi_calls [of ?found unavailable 0]
  have e: "\<forall>r \<in> set [record_without_text]. record_text r = []"
    by (simp add: record_texts)
  have n: "\<exists>r \<in> set [record_a, record_without_text, record_b]. record_text r \<noteq> []"
    by (simp add: record_texts utf16_def)
  have a: "(\<forall>r \<in> set [record_a, record_b]. record_text r \<noteq> []) \<and> [record_a, record_b] \<noteq> []"
    by (simp add: record_texts utf16_def)
  have g: "ChatCompletionsCreate ?creq unavailable
      \<in> set (calls (POST stub_config ?svc hi_request 0))"
    by (simp add: cs)
  from context_block_of_records [of "[]" stub_config ?svc hi_request 0]
  have "string_fields record_a
      = [s. (k, JStr s) \<leftarrow> [(utf16 ''text'', JStr (utf16 ''Box breathing'')),
                                  (utf16 ''score'', JNum (Finite 1)),
                                  (utf16 ''post_context'', JStr (utf16 ''Repeat 3 times''))]]"
    unfolding record_a_def by blast
  then have 0: "string_fields record_a = [utf16 ''Box breathing'', utf16 ''Repeat 3 times'']"
    by simp
  from e context_block_of_records [of "[record_without_text]" stub_config ?svc hi_request 0]
  have 1: "contextForModel [record_without_text] = NO_SNIPPET_NOTICE"
    by blast
  from n context_block_of_records
           [of "[record_a, record_without_text, record_b]" stub_config ?svc hi_request 0]
  have "contextForModel [record_a, record_without_text, record_b]
      = js_join RECORD_SEPARATOR
          (filter (\<lambda>t. t \<noteq> []) (map record_text [record_a, record_without_text, record_b]))"
    by blast
  then have 2: "contextForModel [record_a, record_without_text, record_b]
       = utf16 ''Box breathing\<newline>Repeat 3 times\<newline>\<newline>---\<newline>\<newline>Body scan''"
    by (simp add: record_texts RECORD_SEPARATOR_def utf16_def)
  from a context_block_of_records [of "[record_a, record_b]" stub_config ?svc hi_request 0]
  have "contextForModel [record_a, record_b]
      = js_join RECORD_SEPARATOR (map record_text [record_a, record_b])"
    by blast
  then have 3: "contextForModel [record_a, record_b]
       = utf16 ''Box breathing\<newline>Repeat 3 times\<newline>\<newline>---\<newline>\<newline>Body scan''"
    by (simp add: record_texts RECORD_SEPARATOR_def utf16_def)
  from g context_block_of_records [of "[]" stub_config ?svc hi_request 0]
  obtain sreq search where
    s: "SearchRecords sreq (Returns search) \<in> set (calls (POST stub_config ?svc hi_request 0))"
    and m: "cr_messages ?creq ! 1
      = \<lparr>role = System, content = SNIPPETS_HEADER @ contextForModel (found_records search)\<rparr>"
    by blast
  from s have "search = ?found"
    by (simp add: cs)
  with m 3 have 4: "cr_messages ?creq ! 1
      = \<lparr>role = System, content = SNIPPETS_HEADER @
           utf16 ''Box breathing\<newline>Repeat 3 times\<newline>\<newline>---\<newline>\<newline>Body scan''\<rparr>"
    by (simp add: found_records_def)
  from 0 1 2 3 4 g show ?thesis by blast
qed

subsection \<open>Malformed generation output\<close>

text \<open>
  Claim C5 fails as stated: the empty text fails JSON parsing, but the handler replaces
  it by the default text before parsing, and the response is the empty object, not the
  fallback object.
\<close>

theorem empty_completion_text_is_not_fallback:
  "JSON_parse (stub_services (Returns \<lparr>records = None\<rparr>) (Returns (completion_with (Some []))))
      [] = None
   \<and> sent (POST stub_config
        (stub_services (Returns \<lparr>records = None\<rparr>) (Returns (completion_with (Some []))))
        hi_request 0)
      = \<lparr>status = 200, body = JObj []\<rparr>
   \<and> JObj [] \<noteq> parse_fallback"
proof -
  let ?svc = "stub_services (Returns \<lparr>records = None\<rparr>) (Returns (completion_with (Some [])))"
  have "ChatCompletionsCreate
          (chat_request_for (contextForModel (found_records \<lparr>records = None\<rparr>))
             [\<lparr>role = User, content = utf16 ''hi''\<rparr>])
          (Returns (completion_with (Some [])))
      \<in> set (calls (POST stub_config ?svc hi_request 0))"
    by (simp add: hi_calls)
  from POST_generation_returns [OF this]
  have "sent (POST stub_config ?svc hi_request 0) = \<lparr>status = 200, body = JObj []\<rparr>"
    by (simp add: completion_content_def completion_with_def js_or_def parsed_def
        stub_services_def stub_parse_def NextResponse_json_def utf16_def)
  then show ?thesis
    by (simp add: stub_services_def stub_parse_def parse_fallback_def utf16_def)
qed

text \<open>
  Claim C5, amended. If the generation service returns a completion whose first choice
  carries a non-empty text that fails JSON parsing, the response has status 200 and its
  body is the fixed fallback object: the reply is the apology and \<open>miniPractice\<close> is
  null. No error status reaches the caller.
\<close>

theorem unparseable_text_gets_fallback:
  assumes "ChatCompletionsCreate creq (Returns c) \<in> set (calls (POST cfg svc req w))"
    and "choices c = ch # rest" and "message ch = Some m" and "cm_content m = Some t"
    and "t \<noteq> []" and "JSON_parse svc t = None"
  shows "sent (POST cfg svc req w)
    = \<lparr>status = 200,
       body = JObj [(utf16 ''reply'', JStr PARSE_APOLOGY), (utf16 ''miniPractice'', JNull)]\<rparr>"
  using assms(2-6)
  by (simp add: POST_generation_returns [OF assms(1)] completion_content_def js_or_def
      parsed_def parse_fallback_def NextResponse_json_def)

theorem unparseable_text_gets_fallback_witness:
  "sent (POST stub_config
        (stub_services (Returns \<lparr>records = None\<rparr>)
           (Returns (completion_with (Some (utf16 ''Sure!'')))))
        hi_request 0)
    = \<lparr>status = 200,
       body = JObj [(utf16 ''reply'', JStr PARSE_APOLOGY), (utf16 ''miniPractice'', JNull)]\<rparr>"
proof -
  let ?c = "completion_with (Some (utf16 ''Sure!''))"
  let ?svc = "stub_services (Returns \<lparr>records = None\<rparr>) (Returns ?c)"
  let ?creq = "chat_request_for (contextForModel (found_records \<lparr>records = None\<rparr>))
                 [\<lparr>role = User, content = utf16 ''hi''\<rparr>]"
  have 1: "ChatCompletionsCreate ?creq (Returns ?c)
      \<in> set (calls (POST stub_config ?svc hi_request 0))"
    by (simp add: hi_calls)
  have 2: "choices ?c = \<lparr>message = Some \<lparr>cm_content = Some (utf16 ''Sure!'')\<rparr>\<rparr> # []"
    by (simp add: completion_with_def)
  have 3: "message \<lparr>message = Some \<lparr>cm_content = Some (utf16 ''Sure!'')\<rparr>\<rparr>
      = Some \<lparr>cm_content = Some (utf16 ''Sure!'')\<rparr>"
    by simp
  have 4: "cm_content \<lparr>cm_content = Some (utf16 ''Sure!'')\<rparr> = Some (utf16 ''Sure!'')"
    by simp
  have 5: "utf16 ''Sure!'' \<noteq> []"
    by (simp add: utf16_def)
  have 6: "JSON_parse ?svc (utf16 ''Sure!'') = None"
    by (simp add: stub_services_def stub_parse_def utf16_def)
  show ?thesis
    by (rule unparseable_text_gets_fallback [OF 1 2 3 4 5 6])
qed

subsection \<open>Upstream failure\<close>

text \<open>
  Claim C6. If the search call or the generation call of a run throws, whatever the
  error, the response has status 500 and its body is the fixed apology object.
\<close>

theorem upstream_throw_gets_500:
  assumes "SearchRecords sreq (Throws e) \<in> set (calls (POST cfg svc req w))
         \<or> ChatCompletionsCreate creq (Throws e) \<in> set (calls (POST cfg svc req w))"
  shows "sent (POST cfg svc req w)
    = \<lparr>status = 500,
       body = JObj [(utf16 ''reply'', JStr UPSTREAM_APOLOGY), (utf16 ''miniPractice'', JNull)]\<rparr>"
  using POST_upstream_throws [OF assms]
  by (simp add: upstream_error_response_def NextResponse_json_def)

theorem upstream_throw_gets_500_witness:
  "status (sent (POST stub_config (stub_services unavailable unavailable) hi_request 0)) = 500
   \<and> calls (POST stub_config (stub_services unavailable unavailable) hi_request 0)
       = [SearchRecords (search_request_for stub_config (utf16 ''hi'')) unavailable]
   \<and> sent (POST stub_config (stub_services (Returns \<lparr>records = Some []\<rparr>) unavailable)
        hi_request 0)
     = \<lparr>status = 500,
        body = JObj [(utf16 ''reply'', JStr UPSTREAM_APOLOGY), (utf16 ''miniPractice'', JNull)]\<rparr>
   \<and> length (calls (POST stub_config (stub_services (Returns \<lparr>records = Some []\<rparr>) unavailable)
        hi_request 0)) = 2"
proof -
  let ?e = "utf16 ''service unavailable''"
  let ?s1 = "stub_services (Throws ?e) (Throws ?e)"
  let ?s2 = "stub_services (Returns \<lparr>records = Some []\<rparr>) (Throws ?e)"
  let ?creq = "chat_request_for (contextForModel (found_records \<lparr>records = Some []\<rparr>))
                 [\<lparr>role = User, content = utf16 ''hi''\<rparr>]"
  have 1: "SearchRecords (search_request_for stub_config (utf16 ''hi'')) (Throws ?e)
      \<in> set (calls (POST stub_config ?s1 hi_request 0))
    \<or> ChatCompletionsCreate ?creq (Throws ?e) \<in> set (calls (POST stub_config ?s1 hi_request 0))"
    by (simp add: hi_search_throws)
  have 2: "SearchRecords (search_request_for stub_config (utf16 ''hi'')) (Throws ?e)
      \<in> set (calls (POST stub_config ?s2 hi_request 0))
    \<or> ChatCompletionsCreate ?creq (Throws ?e) \<in> set (calls (POST stub_config ?s2 hi_request 0))"
    by (simp add: hi_calls)
  from upstream_throw_gets_500 [OF 1] upstream_throw_gets_500 [OF 2]
  show ?thesis
    by (simp add: unavailable_def hi_search_throws hi_calls)
qed

subsection \<open>The default text and the unvalidated body\<close>

lemma as_sent_plain: "plain v \<Longrightarrow> as_sent v = v"
proof (induction v)
  case (JNum n)
  then show ?case by (cases n) simp_all
next
  case (JArr vs)
  then have "map as_sent vs = vs"
    by (simp add: list_all_iff map_idI)
  then show ?case by simp
next
  case (JObj fs)
  have "map_prod id as_sent kv = kv" if "kv \<in> set fs" for kv
  proof -
    obtain k v where kv: "kv = (k, v)" by (cases kv)
    with that JObj.prems have "plain v"
      by (auto simp: list_all_iff)
    moreover from kv that have "v \<in> Basic_BNFs.snds kv" by simp
    ultimately have "as_sent v = v"
      using JObj.IH that by blast
    with kv show ?thesis by simp
  qed
  then have "map (map_prod id as_sent) fs = fs"
    by (simp add: map_idI)
  then show ?case by simp
qed simp_all

text \<open>
  Claim C10 fails as stated, in two places. A content that parses to a value with an
  infinite number is not sent as that value: the number is sent as \<open>null\<close>. And a
  completion without any choice has no message content, yet the response is not the
  empty object with status 200: reading the first choice throws, and the response is the
  apology with status 500.
\<close>

theorem parsed_value_not_sent_verbatim:
  "JSON_parse (stub_services (Returns \<lparr>records = None\<rparr>) (Returns huge_completion))
      (utf16 ''{\"n\":1e400}'')
     = Some (JObj [(utf16 ''n'', JNum PosInfinity)])
   \<and> sent (POST stub_config
        (stub_services (Returns \<lparr>records = None\<rparr>) (Returns huge_completion)) hi_request 0)
     = \<lparr>status = 200, body = JObj [(utf16 ''n'', JNull)]\<rparr>
   \<and> JObj [(utf16 ''n'', JNull)] \<noteq> JObj [(utf16 ''n'', JNum PosInfinity)]
   \<and> status (sent (POST stub_config
        (stub_services (Returns \<lparr>records = None\<rparr>) (Returns \<lparr>choices = []\<rparr>)) hi_request 0))
     = 500"
proof -
  let ?s1 = "stub_services (Returns \<lparr>records = None\<rparr>) (Returns huge_completion)"
  let ?s2 = "stub_services (Returns \<lparr>records = None\<rparr>) (Returns \<lparr>choices = []\<rparr>)"
  let ?creq = "chat_request_for (contextForModel (found_records \<lparr>records = None\<rparr>))
                 [\<lparr>role = User, content = utf16 ''hi''\<rparr>]"
  have p: "JSON_parse ?s1 (utf16 ''{\"n\":1e400}'') = Some (JObj [(utf16 ''n'', JNum PosInfinity)])"
    by (simp add: stub_services_def stub_parse_def utf16_def)
  have "ChatCompletionsCreate ?creq (Returns huge_completion)
      \<in> set (calls (POST stub_config ?s1 hi_request 0))"
    by (simp add: hi_calls)
  from POST_generation_returns [OF this] p
  have 1: "sent (POST stub_config ?s1 hi_request 0)
      = \<lparr>status = 200, body = JObj [(utf16 ''n'', JNull)]\<rparr>"
    by (simp add: completion_content_def completion_with_def huge_completion_def js_or_def
        parsed_def NextResponse_json_def utf16_def)
  have "ChatCompletionsCreate ?creq (Returns \<lparr>choices = []\<rparr>)
      \<in> set (calls (POST stub_config ?s2 hi_request 0))"
    by (simp add: hi_calls)
  from POST_generation_returns [OF this]
  have 2: "status (sent (POST stub_config ?s2 hi_request 0)) = 500"
    by (simp add: completion_content_def upstream_error_response_def NextResponse_json_def)
  from p 1 2 show ?thesis by simp
qed

text \<open>
  Claim C10, amended. Let the generation service return a completion. If it has no
  choice, the response is the apology with status 500. If it has a first choice and the
  message of that choice or the message's content is missing, or the content is the empty
  string, the text parsed is the default \<open>{}\<close>; given that \<open>JSON.parse\<close> reads that text as
  the empty object, the response has status 200 and the empty object as its body, which
  has neither a \<open>reply\<close> nor a \<open>miniPractice\<close> field and is not the fallback object. And
  whenever a non-empty content parses to a value, whatever its shape, the response has
  status 200 and its body is that value as \<open>JSON.stringify\<close> writes it: every infinite
  number replaced by \<open>null\<close> and \<open>-0\<close> by \<open>0\<close>, so the value itself when it holds neither.
\<close>

theorem default_text_and_sent_body:
  assumes "ChatCompletionsCreate creq (Returns c) \<in> set (calls (POST cfg svc req w))"
  shows "(choices c = [] \<longrightarrow>
            sent (POST cfg svc req w)
              = \<lparr>status = 500,
                 body = JObj [(utf16 ''reply'', JStr UPSTREAM_APOLOGY),
                              (utf16 ''miniPractice'', JNull)]\<rparr>)
       \<and> (\<forall>ch rest. choices c = ch # rest \<longrightarrow>
            ((message ch = None
               \<or> (\<exists>m. message ch = Some m \<and> (cm_content m = None \<or> cm_content m = Some [])))
              \<longrightarrow> completion_content c = Returns (utf16 ''{}''))
          \<and> ((message ch = None
               \<or> (\<exists>m. message ch = Some m \<and> (cm_content m = None \<or> cm_content m = Some [])))
              \<and> JSON_parse svc (utf16 ''{}'') = Some (JObj [])
              \<longrightarrow> sent (POST cfg svc req w) = \<lparr>status = 200, body = JObj []\<rparr>
                  \<and> body (sent (POST cfg svc req w)) \<noteq> parse_fallback
                  \<and> optional_member (body (sent (POST cfg svc req w))) (utf16 ''reply'') = None
                  \<and> optional_member (body (sent (POST cfg svc req w))) (utf16 ''miniPractice'')
                      = None)
          \<and> (\<forall>m t v. message ch = Some m \<and> cm_content m = Some t \<and> t \<noteq> []
                  \<and> JSON_parse svc t = Some v
              \<longrightarrow> sent (POST cfg svc req w) = \<lparr>status = 200, body = as_sent v\<rparr>
                  \<and> (plain v \<longrightarrow> sent (POST cfg svc req w) = \<lparr>status = 200, body = v\<rparr>)))"
proof -
  note r = POST_generation_returns [OF assms]
  have a: "choices c = [] \<longrightarrow>
            sent (POST cfg svc req w)
              = \<lparr>status = 500,
                 body = JObj [(utf16 ''reply'', JStr UPSTREAM_APOLOGY),
                              (utf16 ''miniPractice'', JNull)]\<rparr>"
    by (simp add: r completion_content_def upstream_error_response_def NextResponse_json_def)
  have b: "\<forall>ch rest. choices c = ch # rest \<longrightarrow>
            ((message ch = None
               \<or> (\<exists>m. message ch = Some m \<and> (cm_content m = None \<or> cm_content m = Some [])))
              \<longrightarrow> completion_content c = Returns (utf16 ''{}''))
          \<and> ((message ch = None
               \<or> (\<exists>m. message ch = Some m \<and> (cm_content m = None \<or> cm_content m = Some [])))
              \<and> JSON_parse svc (utf16 ''{}'') = Some (JObj [])
              \<longrightarrow> sent (POST cfg svc req w) = \<lparr>status = 200, body = JObj []\<rparr>
                  \<and> body (sent (POST cfg svc req w)) \<noteq> parse_fallback
                  \<and> optional_member (body (sent (POST cfg svc req w))) (utf16 ''reply'') = None
                  \<and> optional_member (body (sent (POST cfg svc req w))) (utf16 ''miniPractice'')
                      = None)
          \<and> (\<forall>m t v. message ch = Some m \<and> cm_content m = Some t \<and> t \<noteq> []
                  \<and> JSON_parse svc t = Some v
              \<longrightarrow> sent (POST cfg svc req w) = \<lparr>status = 200, body = as_sent v\<rparr>
                  \<and> (plain v \<longrightarrow> sent (POST cfg svc req w) = \<lparr>status = 200, body = v\<rparr>))"
    by (auto simp: r completion_content_def js_or_def parsed_def parse_fallback_def
        NextResponse_json_def optional_member_def as_sent_plain)
  from a b show ?thesis by (rule conjI)
qed

theorem default_text_and_sent_body_witness:
  "sent (POST stub_config
      (stub_services (Returns \<lparr>records = None\<rparr>) (Returns (completion_with None))) hi_request 0)
     = \<lparr>status = 200, body = JObj []\<rparr>
   \<and> sent (POST stub_config
      (stub_services (Returns \<lparr>records = None\<rparr>) (Returns ok_completion)) hi_request 0)
     = \<lparr>status = 200,
        body = JObj [(utf16 ''reply'', JStr (utf16 ''ok'')), (utf16 ''miniPractice'', JNull)]\<rparr>
   \<and> sent (POST stub_config
      (stub_services (Returns \<lparr>records = None\<rparr>) (Returns \<lparr>choices = []\<rparr>)) hi_request 0)
     = \<lparr>status = 500,
        body = JObj [(utf16 ''reply'', JStr UPSTREAM_APOLOGY), (utf16 ''miniPractice'', JNull)]\<rparr>"
proof -
  let ?s1 = "stub_services (Returns \<lparr>records = None\<rparr>) (Returns (completion_with None))"
  let ?s2 = "stub_services (Returns \<lparr>records = None\<rparr>) (Returns ok_completion)"
  let ?s3 = "stub_services (Returns \<lparr>records = None\<rparr>) (Returns \<lparr>choices = []\<rparr>)"
  let ?creq = "chat_request_for (contextForModel (found_records \<lparr>records = None\<rparr>))
                 [\<lparr>role = User, content = utf16 ''hi''\<rparr>]"
  let ?t = "utf16 ''{\"reply\":\"ok\",\"miniPractice\":null}''"
  let ?v = "JObj [(utf16 ''reply'', JStr (utf16 ''ok'')), (utf16 ''miniPractice'', JNull)]"
  have 1: "ChatCompletionsCreate ?creq (Returns (completion_with None))
      \<in> set (calls (POST stub_config ?s1 hi_request 0))"
    by (simp add: hi_calls)
  have 2: "ChatCompletionsCreate ?creq (Returns ok_completion)
      \<in> set (calls (POST stub_config ?s2 hi_request 0))"
    by (simp add: hi_calls)
  have 3: "ChatCompletionsCreate ?creq (Returns \<lparr>choices = []\<rparr>)
      \<in> set (calls (POST stub_config ?s3 hi_request 0))"
    by (simp add: hi_calls)
  have c1: "choices (completion_with None) = \<lparr>message = Some \<lparr>cm_content = None\<rparr>\<rparr> # []"
    by (simp add: completion_with_def)
  have c2: "choices ok_completion = \<lparr>message = Some \<lparr>cm_content = Some ?t\<rparr>\<rparr> # []"
    by (simp add: completion_with_def ok_completion_def)
  have c3: "choices \<lparr>choices = []\<rparr> = []"
    by simp
  have p1: "JSON_parse ?s1 (utf16 ''{}'') = Some (JObj [])"
    by (simp add: stub_services_def stub_parse_def utf16_def)
  have p2: "?t \<noteq> [] \<and> JSON_parse ?s2 ?t = Some ?v \<and> plain ?v"
    by (simp add: stub_services_def stub_parse_def utf16_def)
  from default_text_and_sent_body [OF 1] c1 p1
  have a: "sent (POST stub_config ?s1 hi_request 0) = \<lparr>status = 200, body = JObj []\<rparr>"
    by simp
  from default_text_and_sent_body [OF 2] c2 p2
  have b: "sent (POST stub_config ?s2 hi_request 0) = \<lparr>status = 200, body = ?v\<rparr>"
    by simp
  from default_text_and_sent_body [OF 3] c3
  have c: "sent (POST stub_config ?s3 hi_request 0)
     = \<lparr>status = 500,
        body = JObj [(utf16 ''reply'', JStr UPSTREAM_APOLOGY), (utf16 ''miniPractice'', JNull)]\<rparr>"
    by blast
  from a b c show ?thesis by simp
qed

section \<open>Properties of the chat client\<close>

subsection \<open>What the client shows of a reply\<close>

text \<open>
  Claim C1. For a response with status 200 whose body is an object without a \<open>message\<close>
  and without a \<open>content\<close> field, as the body with just \<open>reply\<close> and \<open>miniPractice\<close> is,
  the client appends one assistant turn whose content is the placeholder text, whatever
  the reply text was.
\<close>

theorem placeholder_shown_for_reply_body:
  assumes "map_of props (utf16 ''message'') = None"
    and "map_of props (utf16 ''content'') = None"
  shows "st_messages (sendMessage_settle
            (Returns \<lparr>res_status = 200, res_json = Returns (JObj props)\<rparr>) now st)
    = st_messages st @
        [\<lparr>pm_id = now + 1, pm_role = page_assistant, pm_content = JStr PLACEHOLDER_TEXT,
          withActivityCard = Some True\<rparr>]"
  using assms
  by (simp add: sendMessage_settle_def ok_def assistantText_def optional_member_def
      nullish_def)

text \<open>
  End to end: the handler's response to \<open>hi\<close>, with a generation service whose reply
  text is \<open>ok\<close>, handed to the client.
\<close>

theorem placeholder_shown_for_reply_body_witness:
  "body (sent (POST stub_config
      (stub_services (Returns \<lparr>records = None\<rparr>) (Returns ok_completion)) hi_request 0))
     = JObj [(utf16 ''reply'', JStr (utf16 ''ok'')), (utf16 ''miniPractice'', JNull)]
   \<and> st_messages (sendMessage_settle
      (Returns
        \<lparr>res_status = status (sent (POST stub_config
            (stub_services (Returns \<lparr>records = None\<rparr>) (Returns ok_completion)) hi_request 0)),
         res_json = Returns (body (sent (POST stub_config
            (stub_services (Returns \<lparr>records = None\<rparr>) (Returns ok_completion)) hi_request 0)))\<rparr>)
      41 initial_state)
    = [initialAssistantMessage,
       \<lparr>pm_id = 42, pm_role = page_assistant, pm_content = JStr PLACEHOLDER_TEXT,
        withActivityCard = Some True\<rparr>]
   \<and> JStr PLACEHOLDER_TEXT \<noteq> JStr (utf16 ''ok'')"
  using placeholder_shown_for_reply_body
          [of "[(utf16 ''reply'', JStr (utf16 ''ok'')), (utf16 ''miniPractice'', JNull)]"
              41 initial_state]
  by (simp add: hi_ok_response utf16_def initial_state_def PLACEHOLDER_TEXT_def)

subsection \<open>One interaction\<close>

lemma sendMessage_settle_messages:
  "st_messages (sendMessage_settle r t1 st)
     = st_messages st @
         [case response_data r of
            Some data \<Rightarrow>
              \<lparr>pm_id = t1 + 1, pm_role = page_assistant,
               pm_content = assistantText data, withActivityCard = Some True\<rparr>
          | None \<Rightarrow>
              \<lparr>pm_id = t1 + 2, pm_role = page_assistant,
               pm_content = JStr ERROR_TEXT, withActivityCard = None\<rparr>]
   \<and> \<not> st_isLoading (sendMessage_settle r t1 st)"
  by (simp add: sendMessage_settle_def response_data_def Let_def split: outcome.splits)

text \<open>
  What holds of one call of \<open>sendMessage\<close> whose render saw the cells as they are, with
  a text that is not empty once trimmed and nothing loading: the user turn is appended
  before the request settles, the input is emptied, the loading flag is set and the
  payload is the whole history; when the request settles one assistant turn is appended
  and the loading flag is false, on success and on every failure.
\<close>

lemma sendMessage_turns:
  assumes "trim text \<noteq> []" and "\<not> st_isLoading st"
  shows "\<exists>st1 p u.
      sendMessage_start text t0 st st = Some (st1, p)
    \<and> u = \<lparr>pm_id = t0, pm_role = page_user, pm_content = JStr (trim text),
           withActivityCard = None\<rparr>
    \<and> st_messages st1 = st_messages st @ [u]
    \<and> st_input st1 = [] \<and> st_isLoading st1
    \<and> p = map (\<lambda>m. (pm_role m, pm_content m)) (st_messages st @ [u])
    \<and> (\<forall>r t1.
          st_messages (sendMessage_settle r t1 st1)
            = st_messages st @
                [u, (case response_data r of
                       Some data \<Rightarrow>
                         \<lparr>pm_id = t1 + 1, pm_role = page_assistant,
                          pm_content = assistantText data, withActivityCard = Some True\<rparr>
                     | None \<Rightarrow>
                         \<lparr>pm_id = t1 + 2, pm_role = page_assistant,
                          pm_content = JStr ERROR_TEXT, withActivityCard = None\<rparr>)]
        \<and> \<not> st_isLoading (sendMessage_settle r t1 st1)
        \<and> sendMessage (\<lambda>_. r) text t0 t1 st st = sendMessage_settle r t1 st1)"
proof -
  let ?u = "\<lparr>pm_id = t0, pm_role = page_user, pm_content = JStr (trim text),
             withActivityCard = None\<rparr>"
  let ?st1 = "st\<lparr>st_messages := st_messages st @ [?u], st_input := [], st_isLoading := True\<rparr>"
  let ?p = "map (\<lambda>m. (pm_role m, pm_content m)) (st_messages st @ [?u])"
  have s: "sendMessage_start text t0 st st = Some (?st1, ?p)"
    using assms by (simp add: sendMessage_start_def Let_def)
  have a: "\<forall>r t1.
          st_messages (sendMessage_settle r t1 ?st1)
            = st_messages st @
                [?u, (case response_data r of
                       Some data \<Rightarrow>
                         \<lparr>pm_id = t1 + 1, pm_role = page_assistant,
                          pm_content = assistantText data, withActivityCard = Some True\<rparr>
                     | None \<Rightarrow>
                         \<lparr>pm_id = t1 + 2, pm_role = page_assistant,
                          pm_content = JStr ERROR_TEXT, withActivityCard = None\<rparr>)]
        \<and> \<not> st_isLoading (sendMessage_settle r t1 ?st1)
        \<and> sendMessage (\<lambda>_. r) text t0 t1 st st = sendMessage_settle r t1 ?st1"
    by (simp add: sendMessage_settle_messages sendMessage_def s)
  have c: "st_messages ?st1 = st_messages st @ [?u] \<and> st_input ?st1 = [] \<and> st_isLoading ?st1"
    by simp
  from s a c show ?thesis by blast
qed

text \<open>
  The guard reads the loading flag its render saw: two chips pressed with no render
  between them both pass it, and the second payload lacks the first turn.
\<close>

lemma two_submits_before_render:
  "map pm_content (st_messages (cells (foldl page_step initial_page
       [HandleQuickMood (utf16 ''one'') 1000, HandleQuickMood (utf16 ''two'') 1001])))
     = [pm_content initialAssistantMessage, JStr (utf16 ''one''), JStr (utf16 ''two'')]
   \<and> in_flight (foldl page_step initial_page
       [HandleQuickMood (utf16 ''one'') 1000, HandleQuickMood (utf16 ''two'') 1001]) = 2
   \<and> map_option (map snd \<circ> snd)
        (sendMessage_start (utf16 ''two'') 1001 initial_state
           (cells (page_step initial_page (HandleQuickMood (utf16 ''one'') 1000))))
     = Some [pm_content initialAssistantMessage, JStr (utf16 ''two'')]"
proof -
  have "trim (utf16 ''one'') = utf16 ''one''" and "trim (utf16 ''two'') = utf16 ''two''"
    by (simp_all add: trim_def utf16_def isWhiteSpace_def)
  moreover have "utf16 ''one'' \<noteq> []" and "utf16 ''two'' \<noteq> []"
    by (simp_all add: utf16_def)
  ultimately show ?thesis
    by (simp add: initial_page_def initial_state_def sendMessage_start_def Let_def)
qed

text \<open>
  Claim C7 at an input where the code departs from it. The page is fresh, nothing is in
  flight, the text is \<open>tired\<close> between blanks, and the backend answers with status 200
  and the body the handler sends for a completion whose reply is \<open>ok\<close>. The user turn is
  appended, one assistant turn follows and the loading flag ends false, as claimed; but
  the assistant turn is not the returned one: its content is the placeholder, since the
  client reads \<open>message\<close> and \<open>content\<close> and the body has \<open>reply\<close>.
\<close>

theorem returned_reply_not_appended:
  "sent (POST stub_config
      (stub_services (Returns \<lparr>records = None\<rparr>) (Returns ok_completion)) hi_request 0)
     = \<lparr>status = 200,
        body = JObj [(utf16 ''reply'', JStr (utf16 ''ok'')), (utf16 ''miniPractice'', JNull)]\<rparr>
   \<and> trim (utf16 '' tired '') \<noteq> []
   \<and> \<not> st_isLoading initial_state
   \<and> st_messages
        (sendMessage
           (\<lambda>_. Returns
              \<lparr>res_status = 200,
               res_json = Returns (JObj [(utf16 ''reply'', JStr (utf16 ''ok'')),
                                         (utf16 ''miniPractice'', JNull)])\<rparr>)
           (utf16 '' tired '') 1000 2000 initial_state initial_state)
     = [initialAssistantMessage,
        \<lparr>pm_id = 1000, pm_role = page_user, pm_content = JStr (utf16 ''tired''),
         withActivityCard = None\<rparr>,
        \<lparr>pm_id = 2001, pm_role = page_assistant, pm_content = JStr PLACEHOLDER_TEXT,
         withActivityCard = Some True\<rparr>]
   \<and> JStr PLACEHOLDER_TEXT \<noteq> JStr (utf16 ''ok'')
   \<and> \<not> st_isLoading
        (sendMessage
           (\<lambda>_. Returns
              \<lparr>res_status = 200,
               res_json = Returns (JObj [(utf16 ''reply'', JStr (utf16 ''ok'')),
                                         (utf16 ''miniPractice'', JNull)])\<rparr>)
           (utf16 '' tired '') 1000 2000 initial_state initial_state)"
proof -
  let ?data = "JObj [(utf16 ''reply'', JStr (utf16 ''ok'')), (utf16 ''miniPractice'', JNull)]"
  let ?r = "Returns \<lparr>res_status = 200, res_json = Returns ?data\<rparr>"
  have t: "trim (utf16 '' tired '') = utf16 ''tired''"
    by (simp add: trim_def utf16_def isWhiteSpace_def)
  then have 1: "trim (utf16 '' tired '') \<noteq> []"
    by (simp add: utf16_def)
  have 2: "\<not> st_isLoading initial_state"
    by (simp add: initial_state_def)
  have 3: "response_data ?r = Some ?data"
    by (simp add: response_data_def ok_def)
  have 4: "assistantText ?data = JStr PLACEHOLDER_TEXT"
    by (simp add: assistantText_def optional_member_def nullish_def utf16_def)
  have 5: "JStr PLACEHOLDER_TEXT \<noteq> JStr (utf16 ''ok'')"
    by (simp add: PLACEHOLDER_TEXT_def utf16_def)
  from sendMessage_turns [OF 1 2, of 1000] obtain st1 where
    m: "st_messages (sendMessage_settle ?r 2000 st1)
         = st_messages initial_state @
             [\<lparr>pm_id = 1000, pm_role = page_user, pm_content = JStr (trim (utf16 '' tired '')),
               withActivityCard = None\<rparr>,
              (case response_data ?r of
                 Some data \<Rightarrow>
                   \<lparr>pm_id = 2000 + 1, pm_role = page_assistant,
                    pm_content = assistantText data, withActivityCard = Some True\<rparr>
               | None \<Rightarrow>
                   \<lparr>pm_id = 2000 + 2, pm_role = page_assistant,
                    pm_content = JStr ERROR_TEXT, withActivityCard = None\<rparr>)]"
    and l: "\<not> st_isLoading (sendMessage_settle ?r 2000 st1)"
    and s: "sendMessage (\<lambda>_. ?r) (utf16 '' tired '') 1000 2000 initial_state initial_state
         = sendMessage_settle ?r 2000 st1"
    by blast
  from m l s t 1 2 3 4 5 hi_ok_response [of 0] show ?thesis
    by (simp add: initial_state_def)
qed

subsection \<open>The history only grows\<close>

lemma sendMessage_start_prefix:
  "sendMessage_start text now seen st = Some (st1, p) \<Longrightarrow>
   prefix (st_messages st) (st_messages st1)"
  by (auto simp: sendMessage_start_def Let_def split: if_splits)

lemma sendMessage_settle_prefix:
  "prefix (st_messages st) (st_messages (sendMessage_settle r now st))"
  by (simp add: sendMessage_settle_def Let_def split: outcome.splits)

lemma page_step_prefix:
  "prefix (st_messages (cells p)) (st_messages (cells (page_step p ev)))"
  by (cases ev)
    (auto simp: sendMessage_settle_prefix split: option.splits dest: sendMessage_start_prefix)

lemma page_run_prefix:
  "prefix (st_messages (cells p)) (st_messages (cells (foldl page_step p evs)))"
proof (induction evs arbitrary: p)
  case Nil
  show ?case by simp
next
  case (Cons ev evs)
  have "prefix (st_messages (cells p)) (st_messages (cells (page_step p ev)))"
    by (rule page_step_prefix)
  also have "prefix (st_messages (cells (page_step p ev)))
      (st_messages (cells (foldl page_step (page_step p ev) evs)))"
    by (rule Cons.IH)
  finally show ?case by simp
qed

text \<open>
  Claim C8. Every step of the page (a submit, a quick-mood chip, typing, a render, a
  request settling) leaves the message list it found as a prefix of the new one, and so
  does every run of steps, whether or not a render comes between two submits: each
  message present before is still there afterwards, at the same place and with the same
  fields.
\<close>

theorem history_append_only:
  "prefix (st_messages (cells p)) (st_messages (cells (page_step p ev)))
   \<and> prefix (st_messages (cells p)) (st_messages (cells (foldl page_step p evs)))
   \<and> (\<forall>i < length (st_messages (cells p)).
        st_messages (cells (foldl page_step p evs)) ! i = st_messages (cells p) ! i)"
proof -
  have r: "prefix (st_messages (cells p)) (st_messages (cells (foldl page_step p evs)))"
    by (rule page_run_prefix)
  then have "\<forall>i < length (st_messages (cells p)).
      st_messages (cells (foldl page_step p evs)) ! i = st_messages (cells p) ! i"
    by (auto simp: prefix_def nth_append)
  with r page_step_prefix show ?thesis by blast
qed

theorem history_append_only_witness:
  "length (st_messages (cells initial_page)) = 1
   \<and> length (st_messages (cells (foldl page_step initial_page tired_run))) = 3
   \<and> st_messages (cells (foldl page_step initial_page tired_run)) ! 0
       = initialAssistantMessage"
proof -
  have 1: "0 < length (st_messages (cells initial_page))"
    by (simp add: initial_page_def initial_state_def)
  have t: "trim (utf16 ''  tired '') = utf16 ''tired''"
    by (simp add: trim_def utf16_def isWhiteSpace_def)
  then have n: "trim (utf16 ''  tired '') \<noteq> []"
    by (simp add: utf16_def)
  have 2: "length (st_messages (cells (foldl page_step initial_page tired_run))) = 3"
    using n
    by (simp add: tired_run_def initial_page_def initial_state_def sendMessage_start_def
        sendMessage_settle_def unavailable_def Let_def)
  from history_append_only [of initial_page _ tired_run] 1
  have "st_messages (cells (foldl page_step initial_page tired_run)) ! 0
      = st_messages (cells initial_page) ! 0"
    by blast
  with 2 show ?thesis
    by (simp add: initial_page_def initial_state_def)
qed

end
